theory Spec2Isabelle
  imports Complex_Main
begin

section \<open>JavaScript values as the module sees them\<close>

text \<open>
  The module (\<^verbatim>\<open>src/iot_integration.js\<close>) handles whatever \<^verbatim>\<open>response.json()\<close>
  gives it, so the fetched document is a JavaScript value: \<^verbatim>\<open>null\<close>, a boolean, a
  number, a string, an array or an object; \<^verbatim>\<open>undefined\<close> is what reading a missing
  property gives. A number is carried by its numeric value (JSON has no \<^verbatim>\<open>NaN\<close>); a
  string is a list of characters, one per code unit; an object is the list of its own
  properties, one entry per key.
\<close>

datatype js_value =
    JUndefined
  | JNull
  | JBool bool
  | JNum real
  | JStr string
  | JArr "js_value list"
  | JObj "(string \<times> js_value) list"

text \<open>What a \<^verbatim>\<open>throw\<close> or a rejected promise carries.\<close>

datatype js_error =
    Error string
  | TypeError string
  | SyntaxError string
  | DOMException string

text \<open>Truthiness, as \<^verbatim>\<open>!x\<close>, \<^verbatim>\<open>x && y\<close> and \<^verbatim>\<open>if (x)\<close> test it.\<close>

fun truthy :: "js_value \<Rightarrow> bool" where
  "truthy JUndefined = False"
| "truthy JNull = False"
| "truthy (JBool b) = b"
| "truthy (JNum r) = (r \<noteq> 0)"
| "truthy (JStr s) = (s \<noteq> [])"
| "truthy (JArr xs) = True"
| "truthy (JObj ps) = True"

text \<open>
  \<^verbatim>\<open>a === b\<close> for two values that sit at different places of one parsed document:
  primitives compare by type and value; an array or an object is equal only to itself,
  and two places of a parsed document never hold the same array or object.
\<close>

fun strict_equals :: "js_value \<Rightarrow> js_value \<Rightarrow> bool" where
  "strict_equals JUndefined JUndefined = True"
| "strict_equals JNull JNull = True"
| "strict_equals (JBool a) (JBool b) = (a = b)"
| "strict_equals (JNum a) (JNum b) = (a = b)"
| "strict_equals (JStr a) (JStr b) = (a = b)"
| "strict_equals _ _ = False"

text \<open>Decimal digits of a natural number and of an integer, as a template literal prints them.\<close>

fun show_nat :: "nat \<Rightarrow> string" where
  "show_nat n =
     (if n < 10 then [''0123456789'' ! n]
      else show_nat (n div 10) @ [''0123456789'' ! (n mod 10)])"

declare show_nat.simps [simp del]

definition show_int :: "int \<Rightarrow> string" where
  "show_int i = (if i < 0 then CHR ''-'' # show_nat (nat (- i)) else show_nat (nat i))"

text \<open>
  Reading a property, \<^verbatim>\<open>v.k\<close> or \<^verbatim>\<open>v[k]\<close> with a string key. On \<^verbatim>\<open>undefined\<close> and
  \<^verbatim>\<open>null\<close> it throws a TypeError. An object gives its own property or \<^verbatim>\<open>undefined\<close>;
  an array and a string have \<^verbatim>\<open>length\<close> and their canonical index keys. Properties
  inherited from the built-in prototypes are functions (or the prototype object):
  truthy values that are \<^verbatim>\<open>===\<close> to nothing in a parsed document. The module only
  tests a looked-up value with \<^verbatim>\<open>x && x === device_id\<close>, which is false for them as it
  is for \<^verbatim>\<open>undefined\<close>, so they are read as \<^verbatim>\<open>undefined\<close> here.
\<close>

definition index_of_key :: "nat \<Rightarrow> string \<Rightarrow> nat option" where
  "index_of_key n k = find (\<lambda>i. show_nat i = k) [0..<n]"

fun get_prop :: "js_value \<Rightarrow> string \<Rightarrow> js_error + js_value" where
  "get_prop JUndefined k = Inl (TypeError (''Cannot read properties of undefined (reading '' @ k @ '')''))"
| "get_prop JNull k = Inl (TypeError (''Cannot read properties of null (reading '' @ k @ '')''))"
| "get_prop (JBool b) k = Inr JUndefined"
| "get_prop (JNum r) k = Inr JUndefined"
| "get_prop (JStr s) k =
     (if k = ''length'' then Inr (JNum (real (length s)))
      else case index_of_key (length s) k of
             Some i \<Rightarrow> Inr (JStr [s ! i])
           | None \<Rightarrow> Inr JUndefined)"
| "get_prop (JArr xs) k =
     (if k = ''length'' then Inr (JNum (real (length xs)))
      else case index_of_key (length xs) k of
             Some i \<Rightarrow> Inr (xs ! i)
           | None \<Rightarrow> Inr JUndefined)"
| "get_prop (JObj ps) k =
     (case map_of ps k of Some v \<Rightarrow> Inr v | None \<Rightarrow> Inr JUndefined)"

section \<open>The host: fetch, clock, dates, console\<close>

text \<open>
  A \<^verbatim>\<open>Response\<close>: the \<^verbatim>\<open>ok\<close> flag, the status code (\<open>http_status\<close>, as
  \<open>status\<close> names a field of the status report below), and what \<^verbatim>\<open>response.json()\<close>
  settles to (a rejection on a malformed or unreadable body, else the parsed value).
\<close>

record response =
  ok :: bool
  http_status :: nat
  json :: "js_error + js_value"

text \<open>
  The host functions the module calls and does not define: \<^verbatim>\<open>fetch(url)\<close> (a rejection
  on a network error, else a response), the time of \<^verbatim>\<open>new Date()\<close> in milliseconds,
  \<^verbatim>\<open>Date.parse\<close> (\<open>None\<close> is \<^verbatim>\<open>NaN\<close>), the text of a number
  (\<^verbatim>\<open>Number.prototype.toString\<close>), and \<^verbatim>\<open>toLocaleString\<close> of a valid date.
\<close>

record platform =
  fetch :: "string \<Rightarrow> js_error + response"
  Date_now :: int
  Date_parse :: "string \<Rightarrow> int option"
  Number_prototype_toString :: "real \<Rightarrow> string"
  Date_toLocaleString :: "int \<Rightarrow> string"

text \<open>
  The string conversion of a value, as a template literal and \<^verbatim>\<open>new Date(v)\<close> apply
  it. A primitive always has one. An object is converted through its \<^verbatim>\<open>toString\<close> and
  \<^verbatim>\<open>valueOf\<close>: a parsed object holds no function, so an own \<^verbatim>\<open>toString\<close> property is
  not callable, the inherited \<^verbatim>\<open>valueOf\<close> returns the object itself, and the conversion
  throws a TypeError; without an own \<^verbatim>\<open>toString\<close> the inherited one gives
  \<^verbatim>\<open>[object Object]\<close>. An array joins the conversions of its elements with commas,
  \<^verbatim>\<open>undefined\<close> and \<^verbatim>\<open>null\<close> as the empty string, and throws when an element does.
\<close>

fun join_strings :: "(js_error + string) list \<Rightarrow> js_error + string" where
  "join_strings [] = Inr []"
| "join_strings [x] = x"
| "join_strings (x # y # ys) =
     (case x of
        Inl e \<Rightarrow> Inl e
      | Inr s \<Rightarrow>
          (case join_strings (y # ys) of
             Inl e \<Rightarrow> Inl e
           | Inr t \<Rightarrow> Inr (s @ '','' @ t)))"

fun ToString :: "platform \<Rightarrow> js_value \<Rightarrow> js_error + string" where
  "ToString pf JUndefined = Inr ''undefined''"
| "ToString pf JNull = Inr ''null''"
| "ToString pf (JBool b) = Inr (if b then ''true'' else ''false'')"
| "ToString pf (JNum r) = Inr (Number_prototype_toString pf r)"
| "ToString pf (JStr s) = Inr s"
| "ToString pf (JArr xs) =
     join_strings
       (map (\<lambda>x. case x of JUndefined \<Rightarrow> Inr [] | JNull \<Rightarrow> Inr [] | _ \<Rightarrow> ToString pf x) xs)"
| "ToString pf (JObj ps) =
     (if map_of ps ''toString'' \<noteq> None
      then Inl (TypeError ''Cannot convert object to primitive value'')
      else Inr ''[object Object]'')"

text \<open>One line written to the console: \<^verbatim>\<open>console.log\<close> or \<^verbatim>\<open>console.error\<close>.\<close>

datatype console_line =
    Log string "js_value list"
  | ConsoleError string js_error

section \<open>The class and its fields\<close>

text \<open>
  \<^verbatim>\<open>this.updateTimer\<close> is not set by the constructor (reading it gives \<^verbatim>\<open>undefined\<close>),
  holds the handle of \<^verbatim>\<open>setInterval\<close> while polling, and \<^verbatim>\<open>null\<close> after a stop.
\<close>

datatype timer_ref = TUndefined | TNull | THandle nat

record IoTIntegration =
  iotDataFile :: string
  updateInterval :: nat
  autoUpdateEnabled :: bool
  updateTimer :: timer_ref

definition constructor :: IoTIntegration where
  "constructor =
     \<lparr>iotDataFile = ''iot_data.json'', updateInterval = 30000,
      autoUpdateEnabled = False, updateTimer = TUndefined\<rparr>"

section \<open>fetchIoTData and refreshIoTData\<close>

text \<open>
  An async method is modelled by what its promise settles to, with the console lines
  it wrote: \<open>Inl e\<close> is a rejection (a failure raised to the caller), \<open>Inr v\<close> the
  value returned. \<open>fetchIoTData_try\<close> is the \<^verbatim>\<open>try\<close> block, \<open>fetchIoTData\<close> adds the
  \<^verbatim>\<open>catch\<close>.
\<close>

definition fetchIoTData_try ::
  "platform \<Rightarrow> IoTIntegration \<Rightarrow> console_line list \<times> (js_error + js_value)" where
  "fetchIoTData_try pf this =
     (case fetch pf (iotDataFile this) of
        Inl e \<Rightarrow> ([], Inl e)
      | Inr response \<Rightarrow>
          if \<not> ok response
          then ([], Inl (Error (''HTTP error! status: '' @ show_nat (http_status response))))
          else (case json response of
                  Inl e \<Rightarrow> ([], Inl e)
                | Inr data \<Rightarrow> ([Log ''IoT data fetched:'' [data]], Inr data)))"

definition fetchIoTData ::
  "platform \<Rightarrow> IoTIntegration \<Rightarrow> console_line list \<times> (js_error + js_value)" where
  "fetchIoTData pf this =
     (case fetchIoTData_try pf this of
        (out, Inl error) \<Rightarrow> (out @ [ConsoleError ''Error fetching IoT data:'' error], Inr JNull)
      | (out, Inr data) \<Rightarrow> (out, Inr data))"

definition refreshIoTData ::
  "platform \<Rightarrow> IoTIntegration \<Rightarrow> console_line list \<times> (js_error + js_value)" where
  "refreshIoTData pf this =
     (case fetchIoTData pf this of
        (out, r) \<Rightarrow> (Log ''Manually refreshing IoT data...'' [] # out, r))"

section \<open>updateEquipmentWithIoTData\<close>

text \<open>
  An equipment record is the caller's object: it has at least \<^verbatim>\<open>equipmentNumber\<close>, a
  string by the interface; \<^verbatim>\<open>currentHours\<close> and \<^verbatim>\<open>lastIoTUpdate\<close> are what reading
  these properties gives (\<^verbatim>\<open>undefined\<close> before the module has set them). Every other
  property of the object is in the record's extension.
\<close>

record equipment =
  equipmentNumber :: string
  currentHours :: js_value
  lastIoTUpdate :: js_value

text \<open>
  The arrow function given to \<^verbatim>\<open>forEach\<close>: the record after the call, and the line
  logged. \<^verbatim>\<open>a && b\<close> does not evaluate \<open>b\<close> when \<open>a\<close> is falsy. The template
  literal of the log line converts \<^verbatim>\<open>iotData.current_hours\<close> to a string after the two
  assignments; when that conversion throws, the call throws.
\<close>

definition forEach_body ::
  "platform \<Rightarrow> js_value \<Rightarrow> 'a equipment_scheme \<Rightarrow>
     console_line list \<times> (js_error + 'a equipment_scheme)" where
  "forEach_body pf iotData equipment =
     (case get_prop iotData ''equipment_mapping'' of
        Inl e \<Rightarrow> ([], Inl e)
      | Inr equipment_mapping \<Rightarrow>
     (case get_prop equipment_mapping (equipmentNumber equipment) of
        Inl e \<Rightarrow> ([], Inl e)
      | Inr deviceId \<Rightarrow>
          if \<not> truthy deviceId then ([], Inr equipment)
          else
     (case get_prop iotData ''device_id'' of
        Inl e \<Rightarrow> ([], Inl e)
      | Inr device_id \<Rightarrow>
          if \<not> strict_equals deviceId device_id then ([], Inr equipment)
          else
     (case get_prop iotData ''current_hours'' of
        Inl e \<Rightarrow> ([], Inl e)
      | Inr current_hours \<Rightarrow>
     (case get_prop iotData ''last_updated'' of
        Inl e \<Rightarrow> ([], Inl e)
      | Inr last_updated \<Rightarrow>
     (case ToString pf current_hours of
        Inl e \<Rightarrow> ([], Inl e)
      | Inr hours \<Rightarrow>
          ([Log (''Updated equipment '' @ equipmentNumber equipment @ '' with ''
                   @ hours @ '' hours'') []],
           Inr (equipment\<lparr>currentHours := current_hours,
                           lastIoTUpdate := last_updated\<rparr>))))))))"

text \<open>
  \<^verbatim>\<open>Array.prototype.forEach\<close> over the records, in order; a throw in the callback ends
  the loop and is the outcome: the promise of the method rejects, and no list is
  returned (the records assigned before the throw stay assigned in the caller's array).
\<close>

fun forEach ::
  "('r \<Rightarrow> console_line list \<times> (js_error + 'r)) \<Rightarrow> 'r list \<Rightarrow>
     console_line list \<times> (js_error + 'r list)" where
  "forEach f [] = ([], Inr [])"
| "forEach f (x # xs) =
     (case f x of
        (out, Inl e) \<Rightarrow> (out, Inl e)
      | (out, Inr x') \<Rightarrow>
          (case forEach f xs of
             (out', Inl e) \<Rightarrow> (out @ out', Inl e)
           | (out', Inr xs') \<Rightarrow> (out @ out', Inr (x' # xs'))))"

definition updateEquipmentWithIoTData ::
  "platform \<Rightarrow> IoTIntegration \<Rightarrow> 'a equipment_scheme list \<Rightarrow>
     console_line list \<times> (js_error + 'a equipment_scheme list)" where
  "updateEquipmentWithIoTData pf this equipmentData =
     (case fetchIoTData pf this of
        (out, Inl e) \<Rightarrow> (out, Inl e)
      | (out, Inr iotData) \<Rightarrow>
          if \<not> truthy iotData
          then (out @ [Log ''No IoT data available or no equipment mapping'' []],
                Inr equipmentData)
          else
     (case get_prop iotData ''equipment_mapping'' of
        Inl e \<Rightarrow> (out, Inl e)
      | Inr equipment_mapping \<Rightarrow>
          if \<not> truthy equipment_mapping
          then (out @ [Log ''No IoT data available or no equipment mapping'' []],
                Inr equipmentData)
          else
     (case forEach (forEach_body pf iotData) equipmentData of
        (out', r) \<Rightarrow> (out @ out', r))))"

section \<open>getIoTStatus\<close>

text \<open>
  A JavaScript number in the status computation is an integer or \<^verbatim>\<open>NaN\<close> (\<open>None\<close>):
  a time value has at most \<open>8.64e15\<close> milliseconds either side of the epoch, and the
  differences and quotients of such values are exact.
\<close>

type_synonym js_number = "int option"

text \<open>
  \<^verbatim>\<open>TimeClip\<close> of a number and the time value of \<^verbatim>\<open>new Date(v)\<close>: a string is
  parsed, another primitive is converted to a number, an array or an object is converted
  to a primitive first, which is its string conversion or a thrown TypeError;
  \<open>Inr None\<close> is an invalid date.
\<close>

definition TimeClip :: "real \<Rightarrow> js_number" where
  "TimeClip r =
     (if \<bar>r\<bar> \<le> 8640000000000000 then Some (if 0 \<le> r then \<lfloor>r\<rfloor> else \<lceil>r\<rceil>) else None)"

fun new_Date :: "platform \<Rightarrow> js_value \<Rightarrow> js_error + js_number" where
  "new_Date pf JUndefined = Inr None"
| "new_Date pf JNull = Inr (Some 0)"
| "new_Date pf (JBool b) = Inr (Some (if b then 1 else 0))"
| "new_Date pf (JNum r) = Inr (TimeClip r)"
| "new_Date pf (JStr s) = Inr (Date_parse pf s)"
| "new_Date pf (JArr xs) =
     (case ToString pf (JArr xs) of Inl e \<Rightarrow> Inl e | Inr s \<Rightarrow> Inr (Date_parse pf s))"
| "new_Date pf (JObj ps) =
     (case ToString pf (JObj ps) of Inl e \<Rightarrow> Inl e | Inr s \<Rightarrow> Inr (Date_parse pf s))"

text \<open>\<^verbatim>\<open>date.toLocaleString()\<close>: the fixed text for an invalid date, else the host's.\<close>

definition toLocaleString :: "platform \<Rightarrow> js_number \<Rightarrow> string" where
  "toLocaleString pf t =
     (case t of None \<Rightarrow> ''Invalid Date'' | Some tv \<Rightarrow> Date_toLocaleString pf tv)"

text \<open>
  The arithmetic of the method: \<^verbatim>\<open>a - b\<close>, \<^verbatim>\<open>Math.floor(a / d)\<close> for a positive
  constant \<open>d\<close>, \<^verbatim>\<open>a % d\<close> (the remainder has the sign of \<open>a\<close>), \<^verbatim>\<open>a > c\<close> (false on
  \<^verbatim>\<open>NaN\<close>) and the text of a number in a template literal.
\<close>

definition js_minus :: "js_number \<Rightarrow> js_number \<Rightarrow> js_number" where
  "js_minus a b =
     (case a of None \<Rightarrow> None | Some x \<Rightarrow> (case b of None \<Rightarrow> None | Some y \<Rightarrow> Some (x - y)))"

definition Math_floor_div :: "js_number \<Rightarrow> int \<Rightarrow> js_number" where
  "Math_floor_div a d = (case a of None \<Rightarrow> None | Some x \<Rightarrow> Some (x div d))"

definition js_rem :: "js_number \<Rightarrow> int \<Rightarrow> js_number" where
  "js_rem a d = (case a of None \<Rightarrow> None | Some x \<Rightarrow> Some (sgn x * (\<bar>x\<bar> mod \<bar>d\<bar>)))"

definition js_gt :: "js_number \<Rightarrow> int \<Rightarrow> bool" where
  "js_gt a c = (case a of None \<Rightarrow> False | Some x \<Rightarrow> x > c)"

definition Number_toString :: "js_number \<Rightarrow> string" where
  "Number_toString a = (case a of None \<Rightarrow> ''NaN'' | Some x \<Rightarrow> show_int x)"

text \<open>
  The object \<^verbatim>\<open>getIoTStatus\<close> returns. \<open>deviceId\<close> and \<open>currentHours'\<close> (the report's
  \<^verbatim>\<open>currentHours\<close>; the name without the prime is the equipment record's field) are
  \<open>None\<close> when the object has no such property.
\<close>

record StatusReport =
  status :: string
  message :: string
  lastUpdate :: string
  deviceId :: "js_value option"
  currentHours' :: "js_value option"

definition getIoTStatus ::
  "platform \<Rightarrow> IoTIntegration \<Rightarrow> console_line list \<times> (js_error + StatusReport)" where
  "getIoTStatus pf this =
     (case fetchIoTData pf this of
        (out, Inl e) \<Rightarrow> (out, Inl e)
      | (out, Inr iotData) \<Rightarrow>
          if \<not> truthy iotData
          then (out, Inr \<lparr>status = ''offline'', message = ''IoT data unavailable'',
                          lastUpdate = ''Never'', deviceId = None, currentHours' = None\<rparr>)
          else
     (case get_prop iotData ''last_updated'' of
        Inl e \<Rightarrow> (out, Inl e)
      | Inr last_updated \<Rightarrow>
     (case new_Date pf last_updated of
        Inl e \<Rightarrow> (out, Inl e)
      | Inr date \<Rightarrow>
          let lastUpdate = date;
              now = Some (Date_now pf);
              timeDiff = js_minus now lastUpdate;
              minutesDiff = Math_floor_div timeDiff (1000 * 60);
              status0 = ''online'';
              message0 = ''IoT data current ('' @ Number_toString minutesDiff @ '' min ago)'';
              (status1, message1) =
                (if js_gt minutesDiff 60
                 then (''stale'',
                       ''IoT data stale ('' @ Number_toString (Math_floor_div minutesDiff 60)
                         @ ''h '' @ Number_toString (js_rem minutesDiff 60) @ ''m ago)'')
                 else (status0, message0));
              (status2, message2) =
                (if js_gt minutesDiff 1440
                 then (''offline'', ''IoT data very old (>24h)'')
                 else (status1, message1))
          in
     (case get_prop iotData ''device_id'' of
        Inl e \<Rightarrow> (out, Inl e)
      | Inr device_id \<Rightarrow>
     (case get_prop iotData ''current_hours'' of
        Inl e \<Rightarrow> (out, Inl e)
      | Inr current_hours \<Rightarrow>
          (out, Inr \<lparr>status = status2, message = message2,
                     lastUpdate = toLocaleString pf lastUpdate,
                     deviceId = Some device_id,
                     currentHours' = Some current_hours\<rparr>))))))"

section \<open>Timers: startAutoUpdate and stopAutoUpdate\<close>

text \<open>
  The host's interval timers, in whole milliseconds. A timer has the handle that
  \<^verbatim>\<open>setInterval\<close> returned (a positive number), its delay, the time it is next due,
  and the \<^verbatim>\<open>callback\<close> its arrow function captured: \<open>Some f\<close> for a function \<open>f\<close>,
  \<open>None\<close> for an argument that is not a function. The host records every call of a
  callback with its time in \<open>invoked\<close>.
\<close>

record 'f timer =
  timer_id :: nat
  delay :: nat
  next_due :: nat
  callback :: "'f option"

record 'f host =
  clock :: nat
  timers :: "'f timer list"
  last_handle :: nat
  invoked :: "(nat \<times> 'f) list"
  console :: "console_line list"

text \<open>
  The delay a host really uses: a delay below 1 ms or above 2147483647 ms (the largest
  signed 32-bit number) is not kept; it becomes 1 ms. A repeating timer runs at most
  once per millisecond.
\<close>

definition effective_delay :: "nat \<Rightarrow> nat" where
  "effective_delay d = (if 1 \<le> d \<and> d \<le> 2147483647 then d else 1)"

definition period :: "'f timer \<Rightarrow> nat" where
  "period t = effective_delay (delay t)"

definition setInterval :: "'f option \<Rightarrow> nat \<Rightarrow> 'f host \<Rightarrow> nat \<times> 'f host" where
  "setInterval cb d w =
     (let h = Suc (last_handle w)
      in (h, w\<lparr>timers := timers w @
                  [\<lparr>timer_id = h, delay = d, next_due = clock w + effective_delay d,
                     callback = cb\<rparr>],
                last_handle := h\<rparr>))"

definition clearInterval :: "nat \<Rightarrow> 'f host \<Rightarrow> 'f host" where
  "clearInterval h w = w\<lparr>timers := filter (\<lambda>t. timer_id t \<noteq> h) (timers w)\<rparr>"

text \<open>
  The arrow function that \<^verbatim>\<open>startAutoUpdate\<close> gives to \<^verbatim>\<open>setInterval\<close>, run at time
  \<open>c\<close>: it calls \<^verbatim>\<open>callback\<close> when that is a function.
\<close>

definition interval_arrow :: "'f option \<Rightarrow> nat \<Rightarrow> 'f host \<Rightarrow> 'f host" where
  "interval_arrow cb c w =
     (case cb of Some f \<Rightarrow> w\<lparr>invoked := invoked w @ [(c, f)]\<rparr> | None \<Rightarrow> w)"

text \<open>
  One millisecond passes: every timer that is due runs its function and is due again
  one period later. \<open>elapse n\<close> is \<open>n\<close> milliseconds.
\<close>

definition tick :: "'f host \<Rightarrow> 'f host" where
  "tick w =
     (let c = Suc (clock w);
          due = filter (\<lambda>t. next_due t \<le> c) (timers w);
          w1 = w\<lparr>clock := c,
                 timers := map (\<lambda>t. if next_due t \<le> c then t\<lparr>next_due := c + period t\<rparr> else t)
                               (timers w)\<rparr>
      in fold (\<lambda>t. interval_arrow (callback t) c) due w1)"

fun elapse :: "nat \<Rightarrow> 'f host \<Rightarrow> 'f host" where
  "elapse 0 w = w"
| "elapse (Suc n) w = elapse n (tick w)"

text \<open>\<^verbatim>\<open>if (this.updateTimer)\<close>: a handle is a number, truthy unless it is 0.\<close>

fun truthy_ref :: "timer_ref \<Rightarrow> bool" where
  "truthy_ref TUndefined = False"
| "truthy_ref TNull = False"
| "truthy_ref (THandle h) = (h \<noteq> 0)"

definition startAutoUpdate ::
  "'f option \<Rightarrow> IoTIntegration \<times> 'f host \<Rightarrow> IoTIntegration \<times> 'f host" where
  "startAutoUpdate cb s =
     (case s of (this, w) \<Rightarrow>
        if autoUpdateEnabled this
        then (this, w\<lparr>console := console w @ [Log ''Auto-update already enabled'' []]\<rparr>)
        else
          let this1 = this\<lparr>autoUpdateEnabled := True\<rparr>;
              w1 = w\<lparr>console := console w @ [Log ''Starting IoT auto-update...'' []]\<rparr>;
              (h, w2) = setInterval cb (updateInterval this1) w1
          in (this1\<lparr>updateTimer := THandle h\<rparr>, w2))"

definition stopAutoUpdate :: "IoTIntegration \<times> 'f host \<Rightarrow> IoTIntegration \<times> 'f host" where
  "stopAutoUpdate s =
     (case s of (this, w) \<Rightarrow>
        if truthy_ref (updateTimer this)
        then
          let w1 = (case updateTimer this of THandle h \<Rightarrow> clearInterval h w | _ \<Rightarrow> w);
              this1 = this\<lparr>updateTimer := TNull\<rparr>;
              this2 = this1\<lparr>autoUpdateEnabled := False\<rparr>
          in (this2, w1\<lparr>console := console w1 @ [Log ''IoT auto-update stopped'' []]\<rparr>)
        else (this, w))"

text \<open>A host that has just started: time 0, no timer, nothing called, nothing logged.\<close>

definition fresh_host :: "'f host" where
  "fresh_host = \<lparr>clock = 0, timers = [], last_handle = 0, invoked = [], console = []\<rparr>"

section \<open>Retrieval outcomes and example hosts\<close>

text \<open>
  A retrieval fails when \<^verbatim>\<open>fetch\<close> rejects (a network error), when the response is
  not \<^verbatim>\<open>ok\<close>, or when \<^verbatim>\<open>response.json()\<close> rejects (a malformed body).
  \<open>host_with r now\<close> is a host whose \<^verbatim>\<open>fetch\<close> settles to \<open>r\<close> at time \<open>now\<close>, with
  a \<^verbatim>\<open>Date.parse\<close> that knows one ISO timestamp.
\<close>
definition host_with :: "(js_error + response) \<Rightarrow> int \<Rightarrow> platform" where
  "host_with r now =
     \<lparr>fetch = (\<lambda>url. r), Date_now = now,
      Date_parse = (\<lambda>s. if s = ''2024-01-01T00:00:00.000Z'' then Some 1704067200000 else None),
      Number_prototype_toString = (\<lambda>r. if r = 1234.5 then ''1234.5'' else show_int \<lfloor>r\<rfloor>),
      Date_toLocaleString = show_int\<rparr>"

definition ok_response :: "js_value \<Rightarrow> js_error + response" where
  "ok_response d = Inr \<lparr>ok = True, http_status = 200, json = Inr d\<rparr>"

definition retrieval_failure :: "platform \<Rightarrow> IoTIntegration \<Rightarrow> bool" where
  "retrieval_failure pf this =
     (case fetch pf (iotDataFile this) of
        Inl e \<Rightarrow> True
      | Inr r \<Rightarrow> \<not> ok r \<or> isl (json r))"

text \<open>
  The fields a telemetry document is required to have, an example document for a device
  and a mapping, and an equipment record the module has not touched yet.
\<close>

definition required_fields :: "string list" where
  "required_fields = [''device_id'', ''equipment_mapping'', ''current_hours'', ''last_updated'']"

definition has_required_fields :: "js_value \<Rightarrow> bool" where
  "has_required_fields d =
     (case d of
        JObj ps \<Rightarrow> list_all (\<lambda>k. map_of ps k \<noteq> None) required_fields
      | _ \<Rightarrow> False)"

definition telemetry :: "string \<Rightarrow> (string \<times> js_value) list \<Rightarrow> js_value" where
  "telemetry dev mapping =
     JObj [(''device_id'', JStr dev), (''equipment_mapping'', JObj mapping),
           (''current_hours'', JNum 1234.5), (''last_updated'', JStr ''2024-01-01T00:00:00.000Z'')]"

definition new_equipment :: "string \<Rightarrow> equipment" where
  "new_equipment n = \<lparr>equipmentNumber = n, currentHours = JUndefined, lastIoTUpdate = JUndefined\<rparr>"

section \<open>Properties of fetchIoTData and refreshIoTData\<close>

lemma fetchIoTData_unfold:
  "fetchIoTData pf this =
     (case fetch pf (iotDataFile this) of
        Inl e \<Rightarrow> ([ConsoleError ''Error fetching IoT data:'' e], Inr JNull)
      | Inr r \<Rightarrow>
          if \<not> ok r
          then ([ConsoleError ''Error fetching IoT data:''
                   (Error (''HTTP error! status: '' @ show_nat (http_status r)))], Inr JNull)
          else (case json r of
                  Inl e \<Rightarrow> ([ConsoleError ''Error fetching IoT data:'' e], Inr JNull)
                | Inr d \<Rightarrow> ([Log ''IoT data fetched:'' [d]], Inr d)))"
  by (simp add: fetchIoTData_def fetchIoTData_try_def split: sum.splits)

lemma fetchIoTData_returns: "\<exists>v. snd (fetchIoTData pf this) = Inr v"
  by (simp add: fetchIoTData_unfold split: sum.splits)

lemma fetchIoTData_failure:
  "retrieval_failure pf this \<Longrightarrow>
     \<exists>e. fetchIoTData pf this = ([ConsoleError ''Error fetching IoT data:'' e], Inr JNull)"
  by (auto simp add: fetchIoTData_unfold retrieval_failure_def split: sum.splits)

lemma update_absent:
  "snd (fetchIoTData pf this) = Inr d \<Longrightarrow> \<not> truthy d \<Longrightarrow>
   updateEquipmentWithIoTData pf this eqs =
     (fst (fetchIoTData pf this) @ [Log ''No IoT data available or no equipment mapping'' []], Inr eqs)"
  by (cases "fetchIoTData pf this") (simp add: updateEquipmentWithIoTData_def)

lemma update_no_mapping:
  "snd (fetchIoTData pf this) = Inr d \<Longrightarrow> get_prop d ''equipment_mapping'' = Inr m \<Longrightarrow> \<not> truthy m \<Longrightarrow>
   updateEquipmentWithIoTData pf this eqs =
     (fst (fetchIoTData pf this) @ [Log ''No IoT data available or no equipment mapping'' []], Inr eqs)"
  by (cases "fetchIoTData pf this") (simp add: updateEquipmentWithIoTData_def)

lemma status_absent:
  "snd (fetchIoTData pf this) = Inr d \<Longrightarrow> \<not> truthy d \<Longrightarrow>
   getIoTStatus pf this =
     (fst (fetchIoTData pf this),
      Inr \<lparr>status = ''offline'', message = ''IoT data unavailable'',
           lastUpdate = ''Never'', deviceId = None, currentHours' = None\<rparr>)"
  by (cases "fetchIoTData pf this") (simp add: getIoTStatus_def)

text \<open>
  Claim C4. \<^verbatim>\<open>fetchIoTData\<close> never rejects, whatever the retrieval does. When the
  retrieval fails (\<^verbatim>\<open>fetch\<close> rejects, the response is not \<^verbatim>\<open>ok\<close>, or the body does
  not parse) it writes the error to the console and returns \<^verbatim>\<open>null\<close>; and then
  \<^verbatim>\<open>updateEquipmentWithIoTData\<close>, \<^verbatim>\<open>getIoTStatus\<close> and \<^verbatim>\<open>refreshIoTData\<close> return a
  value too: none of them rejects.
\<close>

theorem fetch_failure_never_raised:
  "(\<exists>v. snd (fetchIoTData pf this) = Inr v) \<and>
   (retrieval_failure pf this \<longrightarrow>
      (\<exists>e. fetchIoTData pf this = ([ConsoleError ''Error fetching IoT data:'' e], Inr JNull)) \<and>
      snd (updateEquipmentWithIoTData pf this eqs) = Inr eqs \<and>
      (\<exists>r. snd (getIoTStatus pf this) = Inr r) \<and>
      snd (refreshIoTData pf this) = Inr JNull)"
proof (intro conjI impI)
  show "\<exists>v. snd (fetchIoTData pf this) = Inr v" by (rule fetchIoTData_returns)
next
  assume f: "retrieval_failure pf this"
  from fetchIoTData_failure [OF f] obtain e where
    e: "fetchIoTData pf this = ([ConsoleError ''Error fetching IoT data:'' e], Inr JNull)" ..
  then show "\<exists>e. fetchIoTData pf this = ([ConsoleError ''Error fetching IoT data:'' e], Inr JNull)" ..
  from e have n: "snd (fetchIoTData pf this) = Inr JNull" by simp
  show "snd (updateEquipmentWithIoTData pf this eqs) = Inr eqs"
    using n by (simp add: update_absent [where d = JNull])
  show "\<exists>r. snd (getIoTStatus pf this) = Inr r"
    using n by (simp add: status_absent [where d = JNull])
  show "snd (refreshIoTData pf this) = Inr JNull"
    using n by (auto simp add: refreshIoTData_def split: prod.splits)
qed

theorem fetch_failure_never_raised_witness:
  "retrieval_failure (host_with (Inl (TypeError ''Failed to fetch'')) 0) constructor \<and>
   snd (fetchIoTData (host_with (Inl (TypeError ''Failed to fetch'')) 0) constructor) = Inr JNull \<and>
   snd (updateEquipmentWithIoTData (host_with (Inl (TypeError ''Failed to fetch'')) 0) constructor
          [\<lparr>equipmentNumber = ''E1'', currentHours = JUndefined, lastIoTUpdate = JUndefined\<rparr>])
     = Inr [\<lparr>equipmentNumber = ''E1'', currentHours = JUndefined, lastIoTUpdate = JUndefined\<rparr>] \<and>
   snd (refreshIoTData (host_with (Inl (TypeError ''Failed to fetch'')) 0) constructor) = Inr JNull"
proof -
  have f: "retrieval_failure (host_with (Inl (TypeError ''Failed to fetch'')) 0) constructor"
    by (simp add: retrieval_failure_def host_with_def)
  show ?thesis
    using f fetch_failure_never_raised
      [of "host_with (Inl (TypeError ''Failed to fetch'')) 0" constructor
          "[\<lparr>equipmentNumber = ''E1'', currentHours = JUndefined, lastIoTUpdate = JUndefined\<rparr>]"]
    by auto
qed

text \<open>
  Claim C9. On every retrieval outcome \<^verbatim>\<open>refreshIoTData\<close> settles to exactly what
  \<^verbatim>\<open>fetchIoTData\<close> settles to; its console output is that of \<^verbatim>\<open>fetchIoTData\<close> after
  one more line.
\<close>

theorem refresh_same_as_fetch:
  "snd (refreshIoTData pf this) = snd (fetchIoTData pf this) \<and>
   fst (refreshIoTData pf this) = Log ''Manually refreshing IoT data...'' [] # fst (fetchIoTData pf this)"
  by (simp add: refreshIoTData_def split: prod.splits)

section \<open>Properties of the fetched value and of the absent case\<close>

lemma fetchIoTData_success:
  "fetch pf (iotDataFile this) = Inr r \<Longrightarrow> ok r \<Longrightarrow> json r = Inr d \<Longrightarrow>
   fetchIoTData pf this = ([Log ''IoT data fetched:'' [d]], Inr d)"
  by (simp add: fetchIoTData_unfold)

lemma fetchIoTData_host_with [simp]:
  "fetchIoTData (host_with (ok_response d) now) this = ([Log ''IoT data fetched:'' [d]], Inr d)"
  by (simp add: fetchIoTData_unfold host_with_def ok_response_def)

text \<open>
  Claim C5 says that a successful retrieval gives a document with all four required
  fields or \<^verbatim>\<open>null\<close>. The method returns \<^verbatim>\<open>data\<close> as \<^verbatim>\<open>response.json()\<close> gave it and
  looks at no field: when the body is \<^verbatim>\<open>{}\<close>, the retrieval succeeds and the result is
  the empty object, which is not \<^verbatim>\<open>null\<close> and has none of the fields.
\<close>

theorem fetch_returns_unvalidated_counterexample:
  "fetch (host_with (ok_response (JObj [])) 0) (iotDataFile constructor)
     = Inr \<lparr>ok = True, http_status = 200, json = Inr (JObj [])\<rparr> \<and>
   snd (fetchIoTData (host_with (ok_response (JObj [])) 0) constructor) = Inr (JObj []) \<and>
   JObj [] \<noteq> JNull \<and> \<not> has_required_fields (JObj [])"
proof -
  have "fetch (host_with (ok_response (JObj [])) 0) (iotDataFile constructor)
     = Inr \<lparr>ok = True, http_status = 200, json = Inr (JObj [])\<rparr>"
    by (simp add: host_with_def ok_response_def)
  moreover have "\<not> has_required_fields (JObj [])"
    by (simp add: has_required_fields_def required_fields_def)
  ultimately show ?thesis by simp
qed

text \<open>
  Claim C5, amended. When \<^verbatim>\<open>fetch\<close> gives an \<^verbatim>\<open>ok\<close> response whose body parses to \<open>d\<close>,
  \<^verbatim>\<open>fetchIoTData\<close> returns \<open>d\<close> itself, whatever fields it has or lacks.
\<close>

theorem fetch_returns_parsed_value:
  "fetch pf (iotDataFile this) = Inr r \<Longrightarrow> ok r \<Longrightarrow> json r = Inr d \<Longrightarrow>
   snd (fetchIoTData pf this) = Inr d"
  by (simp add: fetchIoTData_success)

theorem fetch_returns_parsed_value_witness:
  "fetch (host_with (ok_response (JObj [])) 0) (iotDataFile constructor)
     = Inr \<lparr>ok = True, http_status = 200, json = Inr (JObj [])\<rparr> \<and>
   snd (fetchIoTData (host_with (ok_response (JObj [])) 0) constructor) = Inr (JObj [])"
proof -
  have f: "fetch (host_with (ok_response (JObj [])) 0) (iotDataFile constructor)
     = Inr \<lparr>ok = True, http_status = 200, json = Inr (JObj [])\<rparr>"
    by (simp add: host_with_def ok_response_def)
  show ?thesis
    using f fetch_returns_parsed_value [OF f] by simp
qed

text \<open>
  Claim C6. When \<^verbatim>\<open>fetchIoTData\<close> gives \<^verbatim>\<open>null\<close>, \<^verbatim>\<open>getIoTStatus\<close> returns the object
  with status \<^verbatim>\<open>offline\<close>, message \<^verbatim>\<open>IoT data unavailable\<close>, lastUpdate \<^verbatim>\<open>Never\<close>, and
  neither \<^verbatim>\<open>deviceId\<close> nor \<^verbatim>\<open>currentHours\<close>.
\<close>

theorem status_when_absent:
  "snd (fetchIoTData pf this) = Inr JNull \<Longrightarrow>
   snd (getIoTStatus pf this) =
     Inr \<lparr>status = ''offline'', message = ''IoT data unavailable'',
          lastUpdate = ''Never'', deviceId = None, currentHours' = None\<rparr>"
  by (simp add: status_absent [where d = JNull])

theorem status_when_absent_witness:
  "snd (fetchIoTData (host_with (Inl (TypeError ''Failed to fetch'')) 0) constructor) = Inr JNull \<and>
   snd (getIoTStatus (host_with (Inl (TypeError ''Failed to fetch'')) 0) constructor) =
     Inr \<lparr>status = ''offline'', message = ''IoT data unavailable'',
          lastUpdate = ''Never'', deviceId = None, currentHours' = None\<rparr>"
proof -
  have n: "snd (fetchIoTData (host_with (Inl (TypeError ''Failed to fetch'')) 0) constructor) = Inr JNull"
    by (simp add: fetchIoTData_unfold host_with_def)
  show ?thesis
    using n status_when_absent [OF n] by simp
qed

text \<open>
  Claim C3. When \<^verbatim>\<open>fetchIoTData\<close> gives \<^verbatim>\<open>null\<close>, or a document in which reading
  \<^verbatim>\<open>equipment_mapping\<close> gives \<^verbatim>\<open>undefined\<close>, \<^verbatim>\<open>updateEquipmentWithIoTData\<close> returns the
  list it was given, every record as it was, after one console line; it does not reject.
\<close>

theorem merge_without_data_or_mapping:
  "snd (fetchIoTData pf this) = Inr d \<Longrightarrow>
   d = JNull \<or> get_prop d ''equipment_mapping'' = Inr JUndefined \<Longrightarrow>
   updateEquipmentWithIoTData pf this eqs =
     (fst (fetchIoTData pf this) @ [Log ''No IoT data available or no equipment mapping'' []],
      Inr eqs)"
proof (cases "truthy d")
  case False
  assume "snd (fetchIoTData pf this) = Inr d"
  with False show ?thesis by (simp add: update_absent)
next
  case True
  assume f: "snd (fetchIoTData pf this) = Inr d"
    and "d = JNull \<or> get_prop d ''equipment_mapping'' = Inr JUndefined"
  with True have m: "get_prop d ''equipment_mapping'' = Inr JUndefined" by auto
  show ?thesis by (simp add: update_no_mapping [OF f m])
qed

theorem merge_without_data_or_mapping_witness:
  "snd (fetchIoTData (host_with (Inl (TypeError ''Failed to fetch'')) 0) constructor) = Inr JNull \<and>
   snd (updateEquipmentWithIoTData (host_with (Inl (TypeError ''Failed to fetch'')) 0) constructor
          [new_equipment ''E1'', new_equipment ''E2''])
     = Inr [new_equipment ''E1'', new_equipment ''E2''] \<and>
   get_prop (JObj [(''device_id'', JStr ''dev-1'')]) ''equipment_mapping'' = Inr JUndefined \<and>
   snd (updateEquipmentWithIoTData
          (host_with (ok_response (JObj [(''device_id'', JStr ''dev-1'')])) 0) constructor
          [new_equipment ''E1'', new_equipment ''E2''])
     = Inr [new_equipment ''E1'', new_equipment ''E2'']"
proof -
  have n: "snd (fetchIoTData (host_with (Inl (TypeError ''Failed to fetch'')) 0) constructor) = Inr JNull"
    by (simp add: fetchIoTData_unfold host_with_def)
  have f: "snd (fetchIoTData (host_with (ok_response (JObj [(''device_id'', JStr ''dev-1'')])) 0)
             constructor) = Inr (JObj [(''device_id'', JStr ''dev-1'')])"
    by simp
  have m: "get_prop (JObj [(''device_id'', JStr ''dev-1'')]) ''equipment_mapping'' = Inr JUndefined"
    by simp
  show ?thesis
    using n m
      merge_without_data_or_mapping [OF n, of "[new_equipment ''E1'', new_equipment ''E2'']"]
      merge_without_data_or_mapping [OF f, of "[new_equipment ''E1'', new_equipment ''E2'']"]
    by simp
qed

section \<open>Properties of getIoTStatus\<close>

lemma host_with_simps [simp]:
  "Date_now (host_with r now) = now"
  "Date_parse (host_with r now) s =
     (if s = ''2024-01-01T00:00:00.000Z'' then Some 1704067200000 else None)"
  "Date_toLocaleString (host_with r now) = show_int"
  "Number_prototype_toString (host_with r now) x =
     (if x = 1234.5 then ''1234.5'' else show_int \<lfloor>x\<rfloor>)"
  by (simp_all add: host_with_def)

lemma get_prop_truthy: "truthy v \<Longrightarrow> \<exists>x. get_prop v k = Inr x"
  by (cases v) (auto split: option.splits)

lemma status_present:
  assumes "snd (fetchIoTData pf this) = Inr d" and "truthy d"
    and "get_prop d ''last_updated'' = Inr lu"
    and "new_Date pf lu = Inr date"
    and "m = Math_floor_div (js_minus (Some (Date_now pf)) date) 60000"
  shows "\<exists>dev ch. getIoTStatus pf this =
     (fst (fetchIoTData pf this),
      Inr (\<lparr>status = (if js_gt m 1440 then ''offline''
                          else if js_gt m 60 then ''stale'' else ''online''),
                message =
                  (if js_gt m 1440 then ''IoT data very old (>24h)''
                   else if js_gt m 60
                   then ''IoT data stale ('' @ Number_toString (Math_floor_div m 60) @ ''h ''
                          @ Number_toString (js_rem m 60) @ ''m ago)''
                   else ''IoT data current ('' @ Number_toString m @ '' min ago)''),
                lastUpdate = toLocaleString pf date,
                deviceId = Some dev, currentHours' = Some ch\<rparr>))"
proof -
  from get_prop_truthy [OF assms(2)] obtain dev where dev: "get_prop d ''device_id'' = Inr dev"
    by blast
  from get_prop_truthy [OF assms(2)] obtain ch where ch: "get_prop d ''current_hours'' = Inr ch"
    by blast
  show ?thesis
    using assms dev ch
    by (cases "fetchIoTData pf this") (simp add: getIoTStatus_def Let_def)
qed

text \<open>
  Claim C10 says that a document whose \<^verbatim>\<open>last_updated\<close> is missing or is no date-time
  is reported \<^verbatim>\<open>online\<close>, with no error and no offline indication. Two values that are
  no date-time are treated otherwise. \<^verbatim>\<open>null\<close> converts to the number 0, a valid date
  (the epoch): the minutes elapsed since then are far above 1440 and the report is
  \<^verbatim>\<open>offline\<close>. An object with an own \<^verbatim>\<open>toString\<close> property, as \<^verbatim>\<open>{"toString": 1}\<close>,
  has no primitive value: \<^verbatim>\<open>new Date\<close> throws a TypeError and the method rejects.
\<close>

theorem status_of_unusable_timestamp_counterexample:
  "get_prop (JObj [(''last_updated'', JNull)]) ''last_updated'' = Inr JNull \<and>
   snd (getIoTStatus (host_with (ok_response (JObj [(''last_updated'', JNull)])) 1704067200000)
          constructor)
     = Inr \<lparr>status = ''offline'', message = ''IoT data very old (>24h)'', lastUpdate = ''0'',
            deviceId = Some JUndefined, currentHours' = Some JUndefined\<rparr> \<and>
   get_prop (JObj [(''last_updated'', JObj [(''toString'', JNum 1)])]) ''last_updated''
     = Inr (JObj [(''toString'', JNum 1)]) \<and>
   snd (getIoTStatus
          (host_with (ok_response (JObj [(''last_updated'', JObj [(''toString'', JNum 1)])]))
             1704067200000)
          constructor)
     = Inl (TypeError ''Cannot convert object to primitive value'')"
proof -
  have z: "show_int 0 = ''0''"
    by (simp add: show_int_def show_nat.simps)
  show ?thesis
    by (simp add: getIoTStatus_def js_minus_def Math_floor_div_def js_gt_def js_rem_def
          Number_toString_def toLocaleString_def z)
qed

text \<open>
  Claim C10, amended. For a fetched document (a truthy value, as every JSON object is)
  whose \<^verbatim>\<open>last_updated\<close> is missing, or is a value of which \<^verbatim>\<open>new Date\<close> makes an invalid
  date without throwing (a string that \<^verbatim>\<open>Date.parse\<close> rejects, a number out of range, an
  array or object whose string conversion does not parse), the elapsed minutes are
  \<^verbatim>\<open>NaN\<close>, both threshold tests are false, and \<^verbatim>\<open>getIoTStatus\<close> returns status
  \<^verbatim>\<open>online\<close> with the message \<^verbatim>\<open>IoT data current (NaN min ago)\<close>.
\<close>

theorem status_of_invalid_date:
  assumes "snd (fetchIoTData pf this) = Inr d" and "truthy d"
    and "get_prop d ''last_updated'' = Inr lu"
    and "lu = JUndefined \<or> new_Date pf lu = Inr None"
  shows "\<exists>r. snd (getIoTStatus pf this) = Inr r \<and> status r = ''online'' \<and>
           message r = ''IoT data current (NaN min ago)'' \<and> lastUpdate r = ''Invalid Date''"
proof -
  from assms(4) have n: "new_Date pf lu = Inr None" by auto
  have m: "None = Math_floor_div (js_minus (Some (Date_now pf)) None) 60000"
    by (simp add: js_minus_def Math_floor_div_def)
  from status_present [OF assms(1-3) n m] show ?thesis
    by (auto simp add: js_gt_def Number_toString_def toLocaleString_def)
qed

theorem status_of_invalid_date_witness:
  "get_prop (JObj [(''device_id'', JStr ''dev-1'')]) ''last_updated'' = Inr JUndefined \<and>
   (\<exists>r. snd (getIoTStatus (host_with (ok_response (JObj [(''device_id'', JStr ''dev-1'')])) 0)
               constructor) = Inr r \<and>
        status r = ''online'' \<and> message r = ''IoT data current (NaN min ago)'') \<and>
   new_Date (host_with (ok_response (JObj [(''last_updated'', JStr ''soon'')])) 0) (JStr ''soon'')
     = Inr None \<and>
   (\<exists>r. snd (getIoTStatus (host_with (ok_response (JObj [(''last_updated'', JStr ''soon'')])) 0)
               constructor) = Inr r \<and>
        status r = ''online'' \<and> message r = ''IoT data current (NaN min ago)'')"
proof -
  have a: "get_prop (JObj [(''device_id'', JStr ''dev-1'')]) ''last_updated'' = Inr JUndefined"
    by simp
  have b: "get_prop (JObj [(''last_updated'', JStr ''soon'')]) ''last_updated'' = Inr (JStr ''soon'')"
    by simp
  have c: "new_Date (host_with (ok_response (JObj [(''last_updated'', JStr ''soon'')])) 0)
             (JStr ''soon'') = Inr None"
    by simp
  have "\<exists>r. snd (getIoTStatus (host_with (ok_response (JObj [(''device_id'', JStr ''dev-1'')])) 0)
               constructor) = Inr r \<and>
        status r = ''online'' \<and> message r = ''IoT data current (NaN min ago)'' \<and>
        lastUpdate r = ''Invalid Date''"
    by (rule status_of_invalid_date [OF _ _ a]) simp_all
  moreover
  have "\<exists>r. snd (getIoTStatus (host_with (ok_response (JObj [(''last_updated'', JStr ''soon'')])) 0)
               constructor) = Inr r \<and>
        status r = ''online'' \<and> message r = ''IoT data current (NaN min ago)'' \<and>
        lastUpdate r = ''Invalid Date''"
    by (rule status_of_invalid_date [OF _ _ b]) simp_all
  ultimately show ?thesis using a c by blast
qed

text \<open>
  Claim C2. For a fetched document whose \<^verbatim>\<open>last_updated\<close> gives a valid date \<open>t\<close>, with
  \<open>elapsed\<close> the whole minutes (floored) from \<open>t\<close> to now: up to 60 the status is
  \<^verbatim>\<open>online\<close> and the message states the elapsed minutes, a negative number included;
  above 60 and up to 1440 it is \<^verbatim>\<open>stale\<close> and the message states \<open>elapsed div 60\<close> hours
  and \<open>elapsed mod 60\<close> minutes; above 1440 the later test overrides that with
  \<^verbatim>\<open>offline\<close> and the fixed message.
\<close>

theorem status_cascade:
  assumes "snd (fetchIoTData pf this) = Inr d" and "truthy d"
    and "get_prop d ''last_updated'' = Inr lu"
    and "new_Date pf lu = Inr (Some t)"
    and "elapsed = (Date_now pf - t) div 60000"
  shows "\<exists>r. snd (getIoTStatus pf this) = Inr r \<and>
           (elapsed \<le> 60 \<longrightarrow>
              status r = ''online'' \<and>
              message r = ''IoT data current ('' @ show_int elapsed @ '' min ago)'') \<and>
           (60 < elapsed \<and> elapsed \<le> 1440 \<longrightarrow>
              status r = ''stale'' \<and>
              message r = ''IoT data stale ('' @ show_int (elapsed div 60) @ ''h ''
                            @ show_int (elapsed mod 60) @ ''m ago)'') \<and>
           (1440 < elapsed \<longrightarrow>
              status r = ''offline'' \<and> message r = ''IoT data very old (>24h)'')"
proof -
  have m: "Some elapsed = Math_floor_div (js_minus (Some (Date_now pf)) (Some t)) 60000"
    by (simp add: assms(5) js_minus_def Math_floor_div_def)
  have r: "0 < elapsed \<Longrightarrow> sgn elapsed * (\<bar>elapsed\<bar> mod 60) = elapsed mod 60"
    by simp
  from status_present [OF assms(1-4) m] show ?thesis
    by (auto simp add: js_gt_def Number_toString_def Math_floor_div_def js_rem_def r
          simp del: append_Cons)
qed


theorem status_cascade_witness:
  "(\<exists>r. snd (getIoTStatus (host_with (ok_response (telemetry ''dev-1'' [])) 1704067200000)
               constructor) = Inr r \<and>
        status r = ''online'' \<and> message r = ''IoT data current (0 min ago)'') \<and>
   (\<exists>r. snd (getIoTStatus (host_with (ok_response (telemetry ''dev-1'' [])) 1704072600000)
               constructor) = Inr r \<and>
        status r = ''stale'' \<and> message r = ''IoT data stale (1h 30m ago)'') \<and>
   (\<exists>r. snd (getIoTStatus (host_with (ok_response (telemetry ''dev-1'' [])) 1704157200000)
               constructor) = Inr r \<and>
        status r = ''offline'' \<and> message r = ''IoT data very old (>24h)'') \<and>
   (\<exists>r. snd (getIoTStatus (host_with (ok_response (telemetry ''dev-1'' [])) 1704067199999)
               constructor) = Inr r \<and>
        status r = ''online'' \<and> message r = ''IoT data current (-1 min ago)'')"
proof -
  have lu: "get_prop (telemetry ''dev-1'' []) ''last_updated'' = Inr (JStr ''2024-01-01T00:00:00.000Z'')"
    by (simp add: telemetry_def)
  have t: "truthy (telemetry ''dev-1'' [])"
    by (simp add: telemetry_def)
  have d: "\<And>now. new_Date (host_with (ok_response (telemetry ''dev-1'' [])) now)
             (JStr ''2024-01-01T00:00:00.000Z'') = Inr (Some 1704067200000)"
    by simp
  have f: "\<And>now. snd (fetchIoTData (host_with (ok_response (telemetry ''dev-1'' [])) now) constructor)
             = Inr (telemetry ''dev-1'' [])"
    by simp
  have s: "show_int 0 = ''0''" "show_int 1 = ''1''" "show_int 30 = ''30''" "show_int (- 1) = ''-1''"
    by (simp_all add: show_int_def show_nat.simps)
  have e0: "(0::int) = (Date_now (host_with (ok_response (telemetry ''dev-1'' [])) 1704067200000)
              - 1704067200000) div 60000"
    by simp
  have e90: "(90::int) = (Date_now (host_with (ok_response (telemetry ''dev-1'' [])) 1704072600000)
              - 1704067200000) div 60000"
    by simp
  have e1500: "(1500::int) = (Date_now (host_with (ok_response (telemetry ''dev-1'' [])) 1704157200000)
              - 1704067200000) div 60000"
    by simp
  have em1: "(- 1::int) = (Date_now (host_with (ok_response (telemetry ''dev-1'' [])) 1704067199999)
              - 1704067200000) div 60000"
    by simp
  show ?thesis
    using status_cascade [OF f t lu d e0] status_cascade [OF f t lu d e90]
      status_cascade [OF f t lu d e1500] status_cascade [OF f t lu d em1]
    by (simp add: s)
qed

section \<open>Properties of updateEquipmentWithIoTData\<close>

lemma falsy_has_no_mapping:
  "\<not> truthy d \<Longrightarrow> get_prop d ''equipment_mapping'' = Inr m \<Longrightarrow> m = JUndefined"
  by (cases d) (auto simp add: index_of_key_def)

lemma falsy_maps_to_falsy:
  "\<not> truthy m \<Longrightarrow> get_prop m k = Inr mapped \<Longrightarrow> \<not> truthy mapped"
  by (cases m) (auto simp add: index_of_key_def split: if_splits)

lemma forEach_body_result:
  assumes "get_prop d ''equipment_mapping'' = Inr m" and "truthy m"
    and "get_prop d ''device_id'' = Inr dev"
    and "get_prop d ''current_hours'' = Inr ch"
    and "get_prop d ''last_updated'' = Inr lu"
    and "(\<exists>hours. ToString pf ch = Inr hours) \<or>
         \<not> (\<exists>mapped. get_prop m (equipmentNumber r) = Inr mapped \<and>
                truthy mapped \<and> strict_equals mapped dev)"
  shows "\<exists>mapped. get_prop m (equipmentNumber r) = Inr mapped \<and>
           snd (forEach_body pf d r) =
             Inr (if truthy mapped \<and> strict_equals mapped dev
                  then r\<lparr>currentHours := ch, lastIoTUpdate := lu\<rparr> else r)"
proof -
  from get_prop_truthy [OF assms(2)] obtain mapped
    where mp: "get_prop m (equipmentNumber r) = Inr mapped" by blast
  show ?thesis
  proof (cases "truthy mapped \<and> strict_equals mapped dev")
    case True
    with assms(6) mp obtain hours where "ToString pf ch = Inr hours" by auto
    with assms(1-5) mp True show ?thesis
      by (simp add: forEach_body_def)
  next
    case False
    with assms(1-5) mp show ?thesis
      by (auto simp add: forEach_body_def)
  qed
qed

lemma forEach_returns:
  "(\<And>x. x \<in> set xs \<Longrightarrow> \<exists>y. snd (f x) = Inr y) \<Longrightarrow>
   \<exists>ys. snd (forEach f xs) = Inr ys \<and> length ys = length xs \<and>
        (\<forall>i<length xs. snd (f (xs ! i)) = Inr (ys ! i))"
proof (induction xs)
  case Nil
  show ?case by simp
next
  case (Cons x xs)
  from Cons.prems obtain y where y: "snd (f x) = Inr y" by auto
  from Cons.IH Cons.prems obtain ys where ys: "snd (forEach f xs) = Inr ys"
    "length ys = length xs" "\<forall>i<length xs. snd (f (xs ! i)) = Inr (ys ! i)" by auto
  have "snd (forEach f (x # xs)) = Inr (y # ys)"
    using y ys(1) by (cases "f x"; cases "forEach f xs") simp
  moreover have "\<forall>i<length (x # xs). snd (f ((x # xs) ! i)) = Inr ((y # ys) ! i)"
    using y ys(3) by (auto simp add: nth_Cons split: nat.splits)
  ultimately show ?case using ys(2) by auto
qed

text \<open>
  Claim C1 says that every record whose number is a key of \<^verbatim>\<open>equipment_mapping\<close> and
  whose mapped identifier equals \<^verbatim>\<open>device_id\<close> is updated. The test in the loop is
  \<^verbatim>\<open>deviceId && deviceId === iotData.device_id\<close>: a mapped identifier that is falsy is
  skipped before the comparison. With \<^verbatim>\<open>device_id\<close> the empty string and \<^verbatim>\<open>E1\<close> mapped
  to the empty string, the record \<^verbatim>\<open>E1\<close> meets the claim's condition and is returned as
  it was, its \<^verbatim>\<open>currentHours\<close> not the document's. And the log line of an update
  converts \<^verbatim>\<open>current_hours\<close> to a string: with \<^verbatim>\<open>current_hours\<close> the object
  \<^verbatim>\<open>{"toString": 1}\<close> and \<^verbatim>\<open>E1\<close> mapped to the document's device, that conversion throws
  at the record \<^verbatim>\<open>E1\<close> and the method rejects instead of returning the records.
\<close>

theorem merge_counterexample:
  "get_prop (telemetry [] [(''E1'', JStr [])]) ''equipment_mapping'' = Inr (JObj [(''E1'', JStr [])]) \<and>
   get_prop (JObj [(''E1'', JStr [])]) (equipmentNumber (new_equipment ''E1'')) = Inr (JStr []) \<and>
   get_prop (telemetry [] [(''E1'', JStr [])]) ''device_id'' = Inr (JStr []) \<and>
   get_prop (telemetry [] [(''E1'', JStr [])]) ''current_hours'' = Inr (JNum 1234.5) \<and>
   snd (updateEquipmentWithIoTData (host_with (ok_response (telemetry [] [(''E1'', JStr [])])) 0)
          constructor [new_equipment ''E1'']) = Inr [new_equipment ''E1''] \<and>
   currentHours (new_equipment ''E1'') \<noteq> JNum 1234.5 \<and>
   snd (updateEquipmentWithIoTData
          (host_with (ok_response
             (JObj [(''device_id'', JStr ''dev-1''),
                    (''equipment_mapping'', JObj [(''E1'', JStr ''dev-1'')]),
                    (''current_hours'', JObj [(''toString'', JNum 1)]),
                    (''last_updated'', JStr ''2024-01-01T00:00:00.000Z'')])) 0)
          constructor [new_equipment ''E1''])
     = Inl (TypeError ''Cannot convert object to primitive value'')"
  by (simp add: updateEquipmentWithIoTData_def forEach_body_def telemetry_def new_equipment_def)

text \<open>
  Claim C1, amended. For every list of equipment records and every fetched document with
  an \<^verbatim>\<open>equipment_mapping\<close>, when \<^verbatim>\<open>current_hours\<close> has a string conversion (every
  primitive has one) or no record matches: the method returns a list of the same length,
  in the same order; a
  record whose \<^verbatim>\<open>equipmentNumber\<close> is a key of the mapping, mapped to a truthy
  identifier (for a string: a non-empty one) that is \<^verbatim>\<open>===\<close> to the document's
  \<^verbatim>\<open>device_id\<close>, has \<^verbatim>\<open>currentHours\<close> and \<^verbatim>\<open>lastIoTUpdate\<close> set from \<^verbatim>\<open>current_hours\<close>
  and \<^verbatim>\<open>last_updated\<close> and every other field as before; every other record is unchanged.
\<close>

theorem merge_updates_matching:
  assumes "snd (fetchIoTData pf this) = Inr d"
    and "get_prop d ''equipment_mapping'' = Inr m"
    and "get_prop d ''device_id'' = Inr dev"
    and "get_prop d ''current_hours'' = Inr ch"
    and "get_prop d ''last_updated'' = Inr lu"
    and "(\<exists>hours. ToString pf ch = Inr hours) \<or>
         (\<forall>r \<in> set eqs.
            \<not> (\<exists>mapped. get_prop m (equipmentNumber r) = Inr mapped \<and>
                   truthy mapped \<and> strict_equals mapped dev))"
  shows "\<exists>eqs'. snd (updateEquipmentWithIoTData pf this eqs) = Inr eqs' \<and>
           length eqs' = length eqs \<and>
           (\<forall>i<length eqs.
              eqs' ! i =
                (if \<exists>mapped. get_prop m (equipmentNumber (eqs ! i)) = Inr mapped \<and>
                      truthy mapped \<and> strict_equals mapped dev
                 then (eqs ! i)\<lparr>currentHours := ch, lastIoTUpdate := lu\<rparr>
                 else eqs ! i))"
proof (cases "truthy d \<and> truthy m")
  case True
  then have td: "truthy d" and tm: "truthy m" by simp_all
  have body: "\<And>r. r \<in> set eqs \<Longrightarrow>
                 \<exists>mapped. get_prop m (equipmentNumber r) = Inr mapped \<and>
                 snd (forEach_body pf d r) =
                   Inr (if truthy mapped \<and> strict_equals mapped dev
                        then r\<lparr>currentHours := ch, lastIoTUpdate := lu\<rparr> else r)"
    using assms(6) by (intro forEach_body_result [OF assms(2) tm assms(3-5)]) blast
  then have total: "\<And>x. x \<in> set eqs \<Longrightarrow> \<exists>y. snd (forEach_body pf d x) = Inr y"
    by blast
  from forEach_returns [of eqs "forEach_body pf d", OF total] obtain ys where
    ys: "snd (forEach (forEach_body pf d) eqs) = Inr ys" "length ys = length eqs"
      "\<forall>i<length eqs. snd (forEach_body pf d (eqs ! i)) = Inr (ys ! i)" by blast
  have "snd (updateEquipmentWithIoTData pf this eqs) = Inr ys"
    using assms(1,2) td tm ys(1)
    by (cases "fetchIoTData pf this"; cases "forEach (forEach_body pf d) eqs")
       (simp add: updateEquipmentWithIoTData_def)
  moreover have "\<forall>i<length eqs.
              ys ! i =
                (if \<exists>mapped. get_prop m (equipmentNumber (eqs ! i)) = Inr mapped \<and>
                      truthy mapped \<and> strict_equals mapped dev
                 then (eqs ! i)\<lparr>currentHours := ch, lastIoTUpdate := lu\<rparr>
                 else eqs ! i)"
  proof (intro allI impI)
    fix i assume i: "i < length eqs"
    from body [OF nth_mem [OF i]] obtain mapped where
      mp: "get_prop m (equipmentNumber (eqs ! i)) = Inr mapped"
        "snd (forEach_body pf d (eqs ! i)) =
           Inr (if truthy mapped \<and> strict_equals mapped dev
                then (eqs ! i)\<lparr>currentHours := ch, lastIoTUpdate := lu\<rparr> else eqs ! i)"
      by blast
    from ys(3) i have "snd (forEach_body pf d (eqs ! i)) = Inr (ys ! i)" by simp
    with mp show "ys ! i =
                (if \<exists>mapped. get_prop m (equipmentNumber (eqs ! i)) = Inr mapped \<and>
                      truthy mapped \<and> strict_equals mapped dev
                 then (eqs ! i)\<lparr>currentHours := ch, lastIoTUpdate := lu\<rparr>
                 else eqs ! i)"
      by auto
  qed
  ultimately show ?thesis using ys(2) by blast
next
  case False
  have fm: "\<not> truthy m"
  proof (cases "truthy d")
    case True
    with False show ?thesis by simp
  next
    case False
    from falsy_has_no_mapping [OF False assms(2)] show ?thesis by simp
  qed
  have "snd (updateEquipmentWithIoTData pf this eqs) = Inr eqs"
  proof (cases "truthy d")
    case True
    show ?thesis by (simp add: update_no_mapping [OF assms(1,2) fm])
  next
    case False
    show ?thesis by (simp add: update_absent [OF assms(1) False])
  qed
  moreover have "\<forall>i<length eqs.
              eqs ! i =
                (if \<exists>mapped. get_prop m (equipmentNumber (eqs ! i)) = Inr mapped \<and>
                      truthy mapped \<and> strict_equals mapped dev
                 then (eqs ! i)\<lparr>currentHours := ch, lastIoTUpdate := lu\<rparr>
                 else eqs ! i)"
    using falsy_maps_to_falsy [OF fm] by auto
  ultimately show ?thesis by blast
qed

theorem merge_updates_matching_witness:
  "snd (updateEquipmentWithIoTData
          (host_with (ok_response
             (telemetry ''dev-1'' [(''E1'', JStr ''dev-1''), (''E2'', JStr ''dev-2'')])) 0)
          constructor [new_equipment ''E1'', new_equipment ''E2'', new_equipment ''E3''])
     = Inr [(new_equipment ''E1'')\<lparr>currentHours := JNum 1234.5,
                lastIoTUpdate := JStr ''2024-01-01T00:00:00.000Z''\<rparr>,
            new_equipment ''E2'', new_equipment ''E3''] \<and>
   (\<exists>eqs'. snd (updateEquipmentWithIoTData
          (host_with (ok_response
             (telemetry ''dev-1'' [(''E1'', JStr ''dev-1''), (''E2'', JStr ''dev-2'')])) 0)
          constructor [new_equipment ''E1'', new_equipment ''E2'', new_equipment ''E3'']) = Inr eqs' \<and>
      length eqs' = 3 \<and>
      (\<forall>i<3.
         eqs' ! i =
           (if \<exists>mapped.
                 get_prop (JObj [(''E1'', JStr ''dev-1''), (''E2'', JStr ''dev-2'')])
                   (equipmentNumber
                      ([new_equipment ''E1'', new_equipment ''E2'', new_equipment ''E3''] ! i))
                   = Inr mapped \<and>
                 truthy mapped \<and> strict_equals mapped (JStr ''dev-1'')
            then ([new_equipment ''E1'', new_equipment ''E2'', new_equipment ''E3''] ! i)
                   \<lparr>currentHours := JNum 1234.5,
                    lastIoTUpdate := JStr ''2024-01-01T00:00:00.000Z''\<rparr>
            else [new_equipment ''E1'', new_equipment ''E2'', new_equipment ''E3''] ! i)))"
proof -
  let ?m = "[(''E1'', JStr ''dev-1''), (''E2'', JStr ''dev-2'')]"
  let ?d = "telemetry ''dev-1'' ?m"
  let ?pf = "host_with (ok_response ?d) 0"
  have f: "snd (fetchIoTData ?pf constructor) = Inr ?d" by simp
  have m: "get_prop ?d ''equipment_mapping'' = Inr (JObj ?m)" by (simp add: telemetry_def)
  have dev: "get_prop ?d ''device_id'' = Inr (JStr ''dev-1'')" by (simp add: telemetry_def)
  have ch: "get_prop ?d ''current_hours'' = Inr (JNum 1234.5)" by (simp add: telemetry_def)
  have lu: "get_prop ?d ''last_updated'' = Inr (JStr ''2024-01-01T00:00:00.000Z'')"
    by (simp add: telemetry_def)
  have ts: "(\<exists>hours. ToString ?pf (JNum 1234.5) = Inr hours) \<or>
            (\<forall>r \<in> set [new_equipment ''E1'', new_equipment ''E2'', new_equipment ''E3''].
               \<not> (\<exists>mapped. get_prop (JObj ?m) (equipmentNumber r) = Inr mapped \<and>
                      truthy mapped \<and> strict_equals mapped (JStr ''dev-1'')))"
    by simp
  have direct: "snd (updateEquipmentWithIoTData ?pf
          constructor [new_equipment ''E1'', new_equipment ''E2'', new_equipment ''E3''])
     = Inr [(new_equipment ''E1'')\<lparr>currentHours := JNum 1234.5,
                lastIoTUpdate := JStr ''2024-01-01T00:00:00.000Z''\<rparr>,
            new_equipment ''E2'', new_equipment ''E3'']"
    by (simp add: updateEquipmentWithIoTData_def forEach_body_def telemetry_def new_equipment_def)
  show ?thesis
    using direct
      merge_updates_matching [OF f m dev ch lu ts]
    by simp
qed

section \<open>Properties of the timer methods\<close>

lemma fold_arrow_fields:
  "timers (fold (\<lambda>t. interval_arrow (callback t) c) ts w) = timers w \<and>
   clock (fold (\<lambda>t. interval_arrow (callback t) c) ts w) = clock w \<and>
   last_handle (fold (\<lambda>t. interval_arrow (callback t) c) ts w) = last_handle w \<and>
   console (fold (\<lambda>t. interval_arrow (callback t) c) ts w) = console w"
  by (induction ts arbitrary: w) (auto simp add: interval_arrow_def split: option.splits)

lemma tick_timer_ids: "map timer_id (timers (tick w)) = map timer_id (timers w)"
  by (simp add: tick_def Let_def fold_arrow_fields comp_def)

lemma elapse_timer_ids: "map timer_id (timers (elapse n w)) = map timer_id (timers w)"
  by (induction n arbitrary: w) (simp_all add: tick_timer_ids)

lemma tick_no_timers: "timers w = [] \<Longrightarrow> tick w = w\<lparr>clock := Suc (clock w)\<rparr>"
  by (simp add: tick_def)

lemma elapse_no_timers: "timers w = [] \<Longrightarrow> elapse n w = w\<lparr>clock := clock w + n\<rparr>"
  by (induction n arbitrary: w) (simp_all add: tick_no_timers)

lemma tick_single_due:
  "timers w = [tm] \<Longrightarrow> callback tm = Some f \<Longrightarrow> next_due tm \<le> Suc (clock w) \<Longrightarrow>
   tick w = w\<lparr>clock := Suc (clock w),
              timers := [tm\<lparr>next_due := Suc (clock w) + period tm\<rparr>],
              invoked := invoked w @ [(Suc (clock w), f)]\<rparr>"
  by (simp add: tick_def interval_arrow_def)

lemma tick_single_waiting:
  "timers w = [tm] \<Longrightarrow> Suc (clock w) < next_due tm \<Longrightarrow>
   tick w = w\<lparr>clock := Suc (clock w)\<rparr>"
  by (simp add: tick_def)

lemma upt_Suc_shift: "map g [0..<Suc m] = g 0 # map (\<lambda>k. g (Suc k)) [0..<m]"
proof -
  have "[0..<Suc m] = 0 # map Suc [0..<m]"
    by (simp add: upt_conv_Cons map_Suc_upt del: upt_Suc)
  then show ?thesis by (simp add: comp_def del: upt_Suc)
qed

lemma elapse_single:
  "timers w = [tm] \<Longrightarrow> callback tm = Some f \<Longrightarrow> delay tm = d \<Longrightarrow> 0 < d \<Longrightarrow>
   d \<le> 2147483647 \<Longrightarrow> clock w < next_due tm \<Longrightarrow>
   invoked (elapse n w) =
     invoked w @ map (\<lambda>k. (next_due tm + k * d, f)) [0..<(clock w + n + d - next_due tm) div d]"
proof (induction n arbitrary: w tm)
  case 0
  then have "(clock w + 0 + d - next_due tm) div d = 0" by simp
  then show ?case by simp
next
  case (Suc n)
  show ?case
  proof (cases "next_due tm \<le> Suc (clock w)")
    case True
    with Suc.prems have nd: "next_due tm = Suc (clock w)" by simp
    have p: "period tm = d" using Suc.prems by (simp add: period_def effective_delay_def)
    let ?w = "w\<lparr>clock := Suc (clock w),
              timers := [tm\<lparr>next_due := Suc (clock w) + period tm\<rparr>],
              invoked := invoked w @ [(Suc (clock w), f)]\<rparr>"
    have tk: "tick w = ?w"
      using Suc.prems True by (simp add: tick_single_due)
    have "invoked (elapse n ?w) =
            invoked ?w @ map (\<lambda>k. (next_due (tm\<lparr>next_due := Suc (clock w) + period tm\<rparr>) + k * d, f))
              [0..<(clock ?w + n + d - next_due (tm\<lparr>next_due := Suc (clock w) + period tm\<rparr>)) div d]"
      by (rule Suc.IH) (use Suc.prems p in simp_all)
    then have "invoked (elapse (Suc n) w) =
            invoked w @ (Suc (clock w), f) # map (\<lambda>k. (Suc (clock w) + d + k * d, f)) [0..<n div d]"
      by (simp add: tk p)
    moreover have "(clock w + Suc n + d - next_due tm) div d = Suc (n div d)"
      using Suc.prems(4) by (simp add: nd)
    ultimately show ?thesis
      by (simp add: nd upt_Suc_shift add.assoc del: upt_Suc)
  next
    case False
    then have tk: "tick w = w\<lparr>clock := Suc (clock w)\<rparr>"
      using Suc.prems by (simp add: tick_single_waiting)
    have "invoked (elapse n (w\<lparr>clock := Suc (clock w)\<rparr>)) =
            invoked (w\<lparr>clock := Suc (clock w)\<rparr>) @ map (\<lambda>k. (next_due tm + k * d, f))
              [0..<(clock (w\<lparr>clock := Suc (clock w)\<rparr>) + n + d - next_due tm) div d]"
      by (rule Suc.IH) (use Suc.prems False in simp_all)
    then show ?thesis by (simp add: tk)
  qed
qed

lemma start_when_enabled:
  "autoUpdateEnabled this \<Longrightarrow>
   startAutoUpdate cb (this, w) =
     (this, w\<lparr>console := console w @ [Log ''Auto-update already enabled'' []]\<rparr>)"
  by (simp add: startAutoUpdate_def)

lemma start_when_disabled:
  "\<not> autoUpdateEnabled this \<Longrightarrow>
   startAutoUpdate cb (this, w) =
     (this\<lparr>autoUpdateEnabled := True, updateTimer := THandle (Suc (last_handle w))\<rparr>,
      w\<lparr>console := console w @ [Log ''Starting IoT auto-update...'' []],
        timers := timers w @
          [\<lparr>timer_id = Suc (last_handle w), delay = updateInterval this,
            next_due = clock w + effective_delay (updateInterval this), callback = cb\<rparr>],
        last_handle := Suc (last_handle w)\<rparr>)"
  by (simp add: startAutoUpdate_def setInterval_def Let_def)

lemma start_schedule:
  assumes "\<not> autoUpdateEnabled this" and "timers w = []" and "0 < updateInterval this"
    and "updateInterval this \<le> 2147483647"
  shows "invoked (elapse n (snd (startAutoUpdate (Some f) (this, w)))) =
           invoked w @ map (\<lambda>k. (clock w + Suc k * updateInterval this, f))
                         [0..<n div updateInterval this]"
proof -
  let ?d = "updateInterval this"
  let ?tm = "\<lparr>timer_id = Suc (last_handle w), delay = ?d,
            next_due = clock w + effective_delay ?d, callback = Some f\<rparr>"
  let ?w1 = "snd (startAutoUpdate (Some f) (this, w))"
  have w1: "timers ?w1 = [?tm]" "clock ?w1 = clock w" "invoked ?w1 = invoked w"
    using assms by (simp_all add: start_when_disabled)
  have e: "effective_delay ?d = ?d"
    using assms(3,4) by (simp add: effective_delay_def)
  have "invoked (elapse n ?w1) =
     invoked ?w1 @ map (\<lambda>k. (next_due ?tm + k * ?d, f)) [0..<(clock ?w1 + n + ?d - next_due ?tm) div ?d]"
    by (rule elapse_single [OF w1(1)]) (use assms w1 e in simp_all)
  then show ?thesis
    by (simp add: w1 e add.assoc add.commute)
qed


lemma stop_with_handle:
  "updateTimer this = THandle h \<Longrightarrow> h \<noteq> 0 \<Longrightarrow>
   stopAutoUpdate (this, w) =
     (this\<lparr>updateTimer := TNull, autoUpdateEnabled := False\<rparr>,
      w\<lparr>timers := filter (\<lambda>t. timer_id t \<noteq> h) (timers w),
        console := console w @ [Log ''IoT auto-update stopped'' []]\<rparr>)"
  by (simp add: stopAutoUpdate_def clearInterval_def)

lemma stop_without_handle:
  "\<not> truthy_ref (updateTimer this) \<Longrightarrow> stopAutoUpdate (this, w) = (this, w)"
  by (simp add: stopAutoUpdate_def)

lemma truthy_ref_handle: "truthy_ref r \<Longrightarrow> \<exists>h. r = THandle h \<and> h \<noteq> 0"
  by (cases r) simp_all

lemma start_elapse_stop:
  assumes "\<not> autoUpdateEnabled this" and "timers w = []"
    and "s1 = startAutoUpdate cb (this, w)"
    and "w2 = elapse k (snd s1)"
    and "s3 = stopAutoUpdate (fst s1, w2)"
  shows "\<not> autoUpdateEnabled (fst s3) \<and> updateTimer (fst s3) = TNull \<and>
         timers (snd s3) = [] \<and> invoked (elapse n (snd s3)) = invoked w2"
proof -
  let ?h = "Suc (last_handle w)"
  have h: "updateTimer (fst s1) = THandle ?h"
    using assms(1,3) by (simp add: start_when_disabled)
  have "map timer_id (timers (snd s1)) = [?h]"
    using assms(1,2,3) by (simp add: start_when_disabled)
  then have ids: "map timer_id (timers w2) = [?h]"
    by (simp add: assms(4) elapse_timer_ids)
  have s3: "s3 = ((fst s1)\<lparr>updateTimer := TNull, autoUpdateEnabled := False\<rparr>,
      w2\<lparr>timers := filter (\<lambda>t. timer_id t \<noteq> ?h) (timers w2),
        console := console w2 @ [Log ''IoT auto-update stopped'' []]\<rparr>)"
    unfolding assms(5) by (rule stop_with_handle [OF h]) simp
  from ids have "filter (\<lambda>t. timer_id t \<noteq> ?h) (timers w2) = []"
    by (cases "timers w2") auto
  with s3 have t: "timers (snd s3) = []" and i: "invoked (snd s3) = invoked w2"
    by simp_all
  have "invoked (elapse n (snd s3)) = invoked (snd s3)"
    by (simp add: elapse_no_timers [OF t])
  with i have "invoked (elapse n (snd s3)) = invoked w2" by simp
  moreover have "\<not> autoUpdateEnabled (fst s3)" "updateTimer (fst s3) = TNull"
    by (simp_all add: s3)
  ultimately show ?thesis using t by blast
qed

text \<open>
  Claim C7. Called while \<^verbatim>\<open>autoUpdateEnabled\<close> is set, \<^verbatim>\<open>startAutoUpdate\<close> writes one
  console line and changes nothing else: no timer is created. Called while it is not
  set, it sets the flag, creates one timer with delay \<^verbatim>\<open>updateInterval\<close> and keeps its
  handle; a second call right after leaves the instance and the timers as the first
  left them, so a host with no other timer has exactly one. With an interval from 1 ms
  to 2147483647 ms, the range in which a host keeps the delay it is given, the callback
  then runs at one interval, two intervals, and so on after the call, and not before
  the first interval has passed. The constructor's interval is 30000 ms.
\<close>

theorem start_is_idempotent:
  "(autoUpdateEnabled this \<longrightarrow>
      startAutoUpdate cb (this, w) =
        (this, w\<lparr>console := console w @ [Log ''Auto-update already enabled'' []]\<rparr>)) \<and>
   (\<not> autoUpdateEnabled this \<longrightarrow>
      startAutoUpdate cb (this, w) =
        (this\<lparr>autoUpdateEnabled := True, updateTimer := THandle (Suc (last_handle w))\<rparr>,
         w\<lparr>console := console w @ [Log ''Starting IoT auto-update...'' []],
           timers := timers w @
             [\<lparr>timer_id = Suc (last_handle w), delay = updateInterval this,
               next_due = clock w + effective_delay (updateInterval this), callback = cb\<rparr>],
           last_handle := Suc (last_handle w)\<rparr>) \<and>
      fst (startAutoUpdate cb' (startAutoUpdate cb (this, w))) = fst (startAutoUpdate cb (this, w)) \<and>
      timers (snd (startAutoUpdate cb' (startAutoUpdate cb (this, w))))
        = timers (snd (startAutoUpdate cb (this, w))) \<and>
      (timers w = [] \<longrightarrow>
         length (timers (snd (startAutoUpdate cb' (startAutoUpdate cb (this, w))))) = 1) \<and>
      (timers w = [] \<and> 0 < updateInterval this \<and> updateInterval this \<le> 2147483647 \<longrightarrow>
         (\<forall>f n. cb = Some f \<longrightarrow>
            invoked (elapse n (snd (startAutoUpdate cb (this, w)))) =
              invoked w @ map (\<lambda>k. (clock w + Suc k * updateInterval this, f))
                            [0..<n div updateInterval this]))) \<and>
   updateInterval constructor = 30000 \<and> \<not> autoUpdateEnabled constructor"
proof (intro conjI impI allI)
  show "updateInterval constructor = 30000" "\<not> autoUpdateEnabled constructor"
    by (simp_all add: constructor_def)
next
  assume "autoUpdateEnabled this"
  then show "startAutoUpdate cb (this, w) =
        (this, w\<lparr>console := console w @ [Log ''Auto-update already enabled'' []]\<rparr>)"
    by (rule start_when_enabled)
next
  assume d: "\<not> autoUpdateEnabled this"
  show "startAutoUpdate cb (this, w) =
        (this\<lparr>autoUpdateEnabled := True, updateTimer := THandle (Suc (last_handle w))\<rparr>,
         w\<lparr>console := console w @ [Log ''Starting IoT auto-update...'' []],
           timers := timers w @
             [\<lparr>timer_id = Suc (last_handle w), delay = updateInterval this,
               next_due = clock w + effective_delay (updateInterval this), callback = cb\<rparr>],
           last_handle := Suc (last_handle w)\<rparr>)"
    by (rule start_when_disabled [OF d])
  show "fst (startAutoUpdate cb' (startAutoUpdate cb (this, w))) = fst (startAutoUpdate cb (this, w))"
    by (simp add: start_when_disabled [OF d] start_when_enabled)
  show "timers (snd (startAutoUpdate cb' (startAutoUpdate cb (this, w))))
        = timers (snd (startAutoUpdate cb (this, w)))"
    by (simp add: start_when_disabled [OF d] start_when_enabled)
next
  assume d: "\<not> autoUpdateEnabled this" and "timers w = []"
  then show "length (timers (snd (startAutoUpdate cb' (startAutoUpdate cb (this, w))))) = 1"
    by (simp add: start_when_disabled [OF d] start_when_enabled)
next
  fix f n
  assume d: "\<not> autoUpdateEnabled this"
    and "timers w = [] \<and> 0 < updateInterval this \<and> updateInterval this \<le> 2147483647"
    and "cb = Some f"
  then show "invoked (elapse n (snd (startAutoUpdate cb (this, w)))) =
              invoked w @ map (\<lambda>k. (clock w + Suc k * updateInterval this, f))
                            [0..<n div updateInterval this]"
    by (simp add: start_schedule)
qed

theorem start_is_idempotent_witness:
  "\<not> autoUpdateEnabled constructor \<and> timers (fresh_host :: string host) = [] \<and>
   0 < updateInterval constructor \<and> updateInterval constructor \<le> 2147483647 \<and>
   length (timers (snd (startAutoUpdate (Some ''other'')
             (startAutoUpdate (Some ''poll'') (constructor, fresh_host))))) = 1 \<and>
   invoked (elapse 29999 (snd (startAutoUpdate (Some ''poll'') (constructor, fresh_host)))) = [] \<and>
   invoked (elapse 30000 (snd (startAutoUpdate (Some ''poll'') (constructor, fresh_host))))
     = [(30000, ''poll'')] \<and>
   invoked (elapse 60000 (snd (startAutoUpdate (Some ''poll'') (constructor, fresh_host))))
     = [(30000, ''poll''), (60000, ''poll'')] \<and>
   startAutoUpdate (Some ''other'') (constructor\<lparr>autoUpdateEnabled := True\<rparr>, fresh_host)
     = (constructor\<lparr>autoUpdateEnabled := True\<rparr>,
        fresh_host\<lparr>console := [Log ''Auto-update already enabled'' []]\<rparr>)"
proof -
  have h: "\<not> autoUpdateEnabled constructor" "timers (fresh_host :: string host) = []"
    "0 < updateInterval constructor" "updateInterval constructor = 30000"
    "clock (fresh_host :: string host) = 0" "invoked (fresh_host :: string host) = []"
    "console (fresh_host :: string host) = []" "updateInterval constructor \<le> 2147483647"
    by (simp_all add: constructor_def fresh_host_def)
  note first = start_is_idempotent [of constructor "Some ''poll''" fresh_host "Some ''other''"]
  note again = start_is_idempotent
    [of "constructor\<lparr>autoUpdateEnabled := True\<rparr>" "Some ''other''" fresh_host "Some ''other''"]
  from first h have one: "length (timers (snd (startAutoUpdate (Some ''other'')
             (startAutoUpdate (Some ''poll'') (constructor, fresh_host))))) = 1"
    by blast
  from first h(1) have "timers (fresh_host :: string host) = [] \<and> 0 < updateInterval constructor \<and>
         updateInterval constructor \<le> 2147483647 \<longrightarrow>
         (\<forall>f n. Some ''poll'' = Some f \<longrightarrow>
            invoked (elapse n (snd (startAutoUpdate (Some ''poll'') (constructor, fresh_host)))) =
              invoked (fresh_host :: string host) @ map (\<lambda>k. (clock (fresh_host :: string host) + Suc k * updateInterval constructor, f))
                            [0..<n div updateInterval constructor])"
    by blast
  with h have sched: "\<And>n. invoked (elapse n (snd (startAutoUpdate (Some ''poll'')
             (constructor, fresh_host)))) =
           map (\<lambda>k. (Suc k * 30000, ''poll'')) [0..<n div 30000]"
    by simp
  have "[0..<(2::nat)] = [0, 1]" by (simp add: upt_rec)
  then have s: "invoked (elapse 29999 (snd (startAutoUpdate (Some ''poll'') (constructor, fresh_host)))) = []"
    "invoked (elapse 30000 (snd (startAutoUpdate (Some ''poll'') (constructor, fresh_host))))
       = [(30000, ''poll'')]"
    "invoked (elapse 60000 (snd (startAutoUpdate (Some ''poll'') (constructor, fresh_host))))
       = [(30000, ''poll''), (60000, ''poll'')]"
    by (simp_all add: sched)
  from again have e: "startAutoUpdate (Some ''other'') (constructor\<lparr>autoUpdateEnabled := True\<rparr>, fresh_host)
     = (constructor\<lparr>autoUpdateEnabled := True\<rparr>,
        fresh_host\<lparr>console := [Log ''Auto-update already enabled'' []]\<rparr>)"
    by (simp add: h)
  from h one s e show ?thesis by blast
qed

text \<open>
  Claim C8. With a timer handle present, \<^verbatim>\<open>stopAutoUpdate\<close> clears that timer, sets
  \<^verbatim>\<open>updateTimer\<close> to \<^verbatim>\<open>null\<close> and \<^verbatim>\<open>autoUpdateEnabled\<close> to false, and the cancelled
  handle is no longer among the host's timers. Without one it changes nothing and does
  not fail, as on a new instance that never started polling. After a start, any time
  elapsed and a stop, no further callback is invoked, however much time passes.
\<close>

theorem stop_cancels_timer:
  "(truthy_ref (updateTimer this) \<longrightarrow>
      (\<exists>h. updateTimer this = THandle h \<and>
           stopAutoUpdate (this, w) =
             (this\<lparr>updateTimer := TNull, autoUpdateEnabled := False\<rparr>,
              w\<lparr>timers := filter (\<lambda>t. timer_id t \<noteq> h) (timers w),
                console := console w @ [Log ''IoT auto-update stopped'' []]\<rparr>) \<and>
           h \<notin> timer_id ` set (timers (snd (stopAutoUpdate (this, w)))))) \<and>
   (\<not> truthy_ref (updateTimer this) \<longrightarrow> stopAutoUpdate (this, w) = (this, w)) \<and>
   (\<not> autoUpdateEnabled this \<and> timers w = [] \<longrightarrow>
      (\<forall>k n. let s1 = startAutoUpdate cb (this, w);
                 w2 = elapse k (snd s1);
                 s3 = stopAutoUpdate (fst s1, w2)
             in \<not> autoUpdateEnabled (fst s3) \<and> updateTimer (fst s3) = TNull \<and>
                timers (snd s3) = [] \<and> invoked (elapse n (snd s3)) = invoked w2)) \<and>
   stopAutoUpdate (constructor, w) = (constructor, w)"
proof (intro conjI impI allI)
  assume "truthy_ref (updateTimer this)"
  then obtain h where h: "updateTimer this = THandle h" "h \<noteq> 0"
    using truthy_ref_handle by blast
  have "stopAutoUpdate (this, w) =
             (this\<lparr>updateTimer := TNull, autoUpdateEnabled := False\<rparr>,
              w\<lparr>timers := filter (\<lambda>t. timer_id t \<noteq> h) (timers w),
                console := console w @ [Log ''IoT auto-update stopped'' []]\<rparr>)"
    by (rule stop_with_handle [OF h])
  moreover from this have "h \<notin> timer_id ` set (timers (snd (stopAutoUpdate (this, w))))"
    by auto
  ultimately show "\<exists>h. updateTimer this = THandle h \<and>
           stopAutoUpdate (this, w) =
             (this\<lparr>updateTimer := TNull, autoUpdateEnabled := False\<rparr>,
              w\<lparr>timers := filter (\<lambda>t. timer_id t \<noteq> h) (timers w),
                console := console w @ [Log ''IoT auto-update stopped'' []]\<rparr>) \<and>
           h \<notin> timer_id ` set (timers (snd (stopAutoUpdate (this, w))))"
    using h(1) by blast
next
  assume "\<not> truthy_ref (updateTimer this)"
  then show "stopAutoUpdate (this, w) = (this, w)" by (rule stop_without_handle)
next
  fix k n
  assume "\<not> autoUpdateEnabled this \<and> timers w = []"
  then show "let s1 = startAutoUpdate cb (this, w);
                 w2 = elapse k (snd s1);
                 s3 = stopAutoUpdate (fst s1, w2)
             in \<not> autoUpdateEnabled (fst s3) \<and> updateTimer (fst s3) = TNull \<and>
                timers (snd s3) = [] \<and> invoked (elapse n (snd s3)) = invoked w2"
    unfolding Let_def by (intro start_elapse_stop [where k = k]) simp_all
next
  show "stopAutoUpdate (constructor, w) = (constructor, w)"
    by (simp add: stop_without_handle constructor_def)
qed


theorem stop_cancels_timer_witness:
  "stopAutoUpdate (constructor, fresh_host :: string host) = (constructor, fresh_host) \<and>
   stopAutoUpdate (startAutoUpdate (Some ''poll'') (constructor, fresh_host))
     = (constructor\<lparr>autoUpdateEnabled := False, updateTimer := TNull\<rparr>,
        fresh_host\<lparr>last_handle := 1,
          console := [Log ''Starting IoT auto-update...'' [], Log ''IoT auto-update stopped'' []]\<rparr>) \<and>
   invoked (elapse 70000 (snd (startAutoUpdate (Some ''poll'') (constructor, fresh_host))))
     = [(30000, ''poll''), (60000, ''poll'')] \<and>
   invoked (elapse 1000000 (snd (stopAutoUpdate
      (fst (startAutoUpdate (Some ''poll'') (constructor, fresh_host)),
       elapse 70000 (snd (startAutoUpdate (Some ''poll'') (constructor, fresh_host)))))))
     = [(30000, ''poll''), (60000, ''poll'')]"
proof -
  have h: "\<not> autoUpdateEnabled constructor" "timers (fresh_host :: string host) = []"
    "0 < updateInterval constructor" "updateInterval constructor = 30000"
    "clock (fresh_host :: string host) = 0" "invoked (fresh_host :: string host) = []"
    "updateInterval constructor \<le> 2147483647"
    by (simp_all add: constructor_def fresh_host_def)
  let ?s1 = "startAutoUpdate (Some ''poll'') (constructor, fresh_host)"
  have s1: "?s1 = (constructor\<lparr>autoUpdateEnabled := True, updateTimer := THandle 1\<rparr>,
      fresh_host\<lparr>console := [Log ''Starting IoT auto-update...'' []],
        timers := [\<lparr>timer_id = 1, delay = 30000, next_due = 30000, callback = Some ''poll''\<rparr>],
        last_handle := 1\<rparr>)"
    by (simp add: start_when_disabled [OF h(1)])
       (simp add: constructor_def fresh_host_def effective_delay_def)
  have "[0..<(2::nat)] = [0, 1]" by (simp add: upt_rec)
  then have before: "invoked (elapse 70000 (snd ?s1)) = [(30000, ''poll''), (60000, ''poll'')]"
    by (simp add: start_schedule [OF h(1-3) h(7)] h)
  note never = stop_cancels_timer [of constructor fresh_host "Some ''poll''"]
  note running = stop_cancels_timer [of "fst ?s1" "snd ?s1" "Some ''poll''"]
  from never have a: "stopAutoUpdate (constructor, fresh_host :: string host) = (constructor, fresh_host)"
    by blast
  from never h have "invoked (elapse 1000000 (snd (stopAutoUpdate (fst ?s1, elapse 70000 (snd ?s1)))))
    = invoked (elapse 70000 (snd ?s1))"
    unfolding Let_def by blast
  with before have c: "invoked (elapse 1000000 (snd (stopAutoUpdate (fst ?s1, elapse 70000 (snd ?s1)))))
    = [(30000, ''poll''), (60000, ''poll'')]"
    by simp
  have "truthy_ref (updateTimer (fst ?s1))" by (simp add: s1)
  with running have "\<exists>h. updateTimer (fst ?s1) = THandle h \<and>
           stopAutoUpdate (fst ?s1, snd ?s1) =
             ((fst ?s1)\<lparr>updateTimer := TNull, autoUpdateEnabled := False\<rparr>,
              (snd ?s1)\<lparr>timers := filter (\<lambda>t. timer_id t \<noteq> h) (timers (snd ?s1)),
                console := console (snd ?s1) @ [Log ''IoT auto-update stopped'' []]\<rparr>)"
    by blast
  then have b: "stopAutoUpdate ?s1
     = (constructor\<lparr>autoUpdateEnabled := False, updateTimer := TNull\<rparr>,
        fresh_host\<lparr>last_handle := 1,
          console := [Log ''Starting IoT auto-update...'' [], Log ''IoT auto-update stopped'' []]\<rparr>)"
    by (auto simp add: s1) (simp add: constructor_def fresh_host_def)
  from a b before c show ?thesis by blast
qed

end
